theory Spec2Isabelle
  imports Complex_Main "HOL-Library.Sublist" "HOL-Library.Monad_Syntax"
begin

section \<open>JavaScript values\<close>

text \<open>
  The values the portal reads from \<open>localStorage\<close> and from HTTP responses are JSON
  documents. Numbers are integers here (the years, semesters, ids and status codes the
  code handles); strings are ASCII. \<open>JUndefined\<close> is what a missing property reads as.
\<close>

datatype json =
    JUndefined
  | JNull
  | JBool bool
  | JNum int
  | JStr string
  | JArr "json list"
  | JObj "(string \<times> json) list"

text \<open>The result of \<open>parseInt\<close>: an integer or \<open>NaN\<close>.\<close>

datatype jsnum = NaN | Num int

text \<open>JavaScript's ToBoolean, as used by \<open>if (x)\<close>, \<open>!x\<close>, \<open>x && y\<close> and \<open>x || y\<close>.\<close>

fun truthy :: "json \<Rightarrow> bool" where
  "truthy JUndefined = False"
| "truthy JNull = False"
| "truthy (JBool b) = b"
| "truthy (JNum n) = (n \<noteq> 0)"
| "truthy (JStr s) = (s \<noteq> [])"
| "truthy (JArr xs) = True"
| "truthy (JObj kvs) = True"

text \<open>
  Reading a property \<open>v.k\<close> for the keys the code uses (none of them is a built-in
  property of a primitive or an array): \<open>None\<close> is the TypeError raised on
  \<open>null\<close> and \<open>undefined\<close>; a later duplicate key of an object wins, as in
  \<open>JSON.parse\<close>.
\<close>

fun get_prop :: "json \<Rightarrow> string \<Rightarrow> json option" where
  "get_prop JUndefined k = None"
| "get_prop JNull k = None"
| "get_prop (JObj kvs) k =
     (case map_of (rev kvs) k of None \<Rightarrow> Some JUndefined | Some v \<Rightarrow> Some v)"
| "get_prop v k = Some JUndefined"

definition is_ws :: "char \<Rightarrow> bool" where
  "is_ws c = (c = CHR '' '' \<or> c = CHR 0x09 \<or> c = CHR 0x0A \<or> c = CHR 0x0B
              \<or> c = CHR 0x0C \<or> c = CHR 0x0D)"

definition digit_of :: "nat \<Rightarrow> char \<Rightarrow> nat option" where
  "digit_of radix c =
     (let n = of_char c :: nat;
          d = (if 48 \<le> n \<and> n \<le> 57 then Some (n - 48)
               else if 97 \<le> n \<and> n \<le> 102 then Some (n - 87)
               else if 65 \<le> n \<and> n \<le> 70 then Some (n - 55)
               else None)
      in case d of None \<Rightarrow> None | Some v \<Rightarrow> if v < radix then Some v else None)"

definition digits_value :: "nat \<Rightarrow> string \<Rightarrow> nat" where
  "digits_value radix ds = foldl (\<lambda>acc c. acc * radix + (case digit_of radix c of None \<Rightarrow> 0 | Some d \<Rightarrow> d)) 0 ds"

text \<open>
  \<open>parseInt(s)\<close> with no radix on a string: leading white space is skipped, one sign
  is read, a \<open>0x\<close>/\<open>0X\<close> prefix selects radix 16, and the longest run of digits is
  the value; with no digit the result is \<open>NaN\<close>.
\<close>

definition parseInt_string :: "string \<Rightarrow> jsnum" where
  "parseInt_string inputString =
     (let s = dropWhile is_ws inputString;
          sign = (case s of c # _ \<Rightarrow> if c = CHR ''-'' then - 1 else 1 | [] \<Rightarrow> (1::int));
          s1 = (case s of c # r \<Rightarrow> if c = CHR ''-'' \<or> c = CHR ''+'' then r else s | [] \<Rightarrow> s);
          hex = (take 2 s1 = ''0x'' \<or> take 2 s1 = ''0X'');
          radix = (if hex then 16 else 10);
          s2 = (if hex then drop 2 s1 else s1);
          z = takeWhile (\<lambda>c. digit_of radix c \<noteq> None) s2
      in if z = [] then NaN else Num (sign * int (digits_value radix z)))"

text \<open>
  \<open>parseInt(v)\<close> on any JSON value goes through ToString: an integer prints as its
  decimal digits and reads back as itself; \<open>true\<close>, \<open>null\<close>, \<open>undefined\<close> and
  \<open>[object Object]\<close> start with no digit; an array prints its elements separated by
  commas, so only its first element can contribute digits. The equation for \<open>JNum n\<close>
  agrees with JavaScript for the integers a double holds exactly and prints without an
  exponent (absolute value below \<open>2^53\<close>), and the one for strings as long as the value
  read stays below \<open>2^53\<close>; beyond that JavaScript rounds or prints an exponent, and the
  model does not follow it.
\<close>

fun parseInt :: "json \<Rightarrow> jsnum" where
  "parseInt (JNum n) = Num n"
| "parseInt (JStr s) = parseInt_string s"
| "parseInt (JArr (x # xs)) = parseInt x"
| "parseInt v = NaN"

section \<open>Semester arithmetic (utils/semester-calculator.ts)\<close>

text \<open>
  What \<open>localStorage.getItem('user')\<close> holds: nothing (or the empty string, which is
  falsy as well), a string \<open>JSON.parse\<close> rejects, or a string that parses to a value.
\<close>

datatype stored_item = NoItem | BadJson | Item json

text \<open>
  \<open>calculateCurrentSemester\<close>, with the clock read passed in: \<open>currentYear\<close> is
  \<open>getFullYear()\<close> and \<open>currentMonth\<close> is \<open>getMonth()\<close>, January being 0.
  The \<open>try\<close> block either returns the stored semester, or leaves \<open>userBatch\<close> set, or
  is left by an exception (the parse error, or the TypeError of reading a property of
  \<open>null\<close>) with \<open>userBatch\<close> as it was.
\<close>

definition calculateCurrentSemester :: "stored_item \<Rightarrow> int \<Rightarrow> int \<Rightarrow> jsnum" where
  "calculateCurrentSemester storedUser currentYear currentMonth =
     (let (userBatch, returned) =
        (case storedUser of
           NoItem \<Rightarrow> (Num 0, None)
         | BadJson \<Rightarrow> (Num 0, None)
         | Item userData \<Rightarrow>
             (case get_prop userData ''batch'' of
                None \<Rightarrow> (Num 0, None)
              | Some batch \<Rightarrow>
                  (let userBatch = (if truthy batch then parseInt batch else Num 0)
                   in case get_prop userData ''current_semester'' of
                        None \<Rightarrow> (userBatch, None)
                      | Some current_semester \<Rightarrow>
                          if truthy current_semester
                          then (userBatch, Some (parseInt current_semester))
                          else (userBatch, None))))
      in case returned of
           Some semester \<Rightarrow> semester
         | None \<Rightarrow>
             (case userBatch of
                Num b \<Rightarrow>
                  if b > 0 then
                    (let yearDifference = currentYear - b;
                         semester = yearDifference * 2 + (if currentMonth \<ge> 6 then 1 else 0) + 1
                     in Num (min (max semester 1) 8))
                  else Num (if currentMonth \<ge> 6 then 2 else 1)
              | NaN \<Rightarrow> Num (if currentMonth \<ge> 6 then 2 else 1)))"

text \<open>\<open>Math.ceil(semester / 2)\<close>; the argument is a JavaScript number, a real here.\<close>

definition calculateAcademicYear :: "real \<Rightarrow> int" where
  "calculateAcademicYear semester = \<lceil>semester / 2\<rceil>"

definition estimateBatchYear :: "int \<Rightarrow> real \<Rightarrow> int" where
  "estimateBatchYear currentYear semester =
     (let academicYear = calculateAcademicYear semester
      in currentYear - academicYear + 1)"

section \<open>The HTTP client (services/api.ts)\<close>

text \<open>
  The browser state the client reads: \<open>window.location\<close>, \<open>document.referrer\<close> and
  the three \<open>localStorage\<close> items the portal keeps. An item is \<open>None\<close> when
  \<open>getItem\<close> returns \<open>null\<close>; the \<open>user\<close> item is seen through \<open>JSON.parse\<close>.
\<close>

record browser =
  hostname :: string
  protocol :: string
  pathname :: string
  origin :: string
  referrer :: string

record local_storage =
  token :: "string option"
  user_item :: stored_item
  api_base_url :: "string option"


text \<open>\<open>String.prototype.includes\<close>: the argument occurs as a contiguous substring.\<close>

fun str_includes :: "string \<Rightarrow> string \<Rightarrow> bool" where
  "str_includes [] sub = (sub = [])"
| "str_includes (c # cs) sub = (prefix sub (c # cs) \<or> str_includes cs sub)"






text \<open>
  Errors: what a rejected request carries (\<open>error.response?.status\<close>, \<open>error.message\<close>),
  a TypeError raised by the code itself, and \<open>new Error(message)\<close>.
\<close>

datatype error =
    HttpError "int option" string
  | TypeError
  | SyntaxError
  | Error string

fun response_status :: "error \<Rightarrow> int option" where
  "response_status (HttpError st msg) = st"
| "response_status e = None"

text \<open>
  The error handler of the response interceptor. It returns the storage, the address
  assigned to \<open>window.location.href\<close> (if any), and the error it rejects with.
\<close>

definition response_error_handler ::
  "error \<Rightarrow> browser \<Rightarrow> local_storage \<Rightarrow> local_storage \<times> string option \<times> error" where
  "response_error_handler err window ls =
     (if response_status err = Some 401 then
        (if \<not> str_includes (pathname window) ''/auth/login'' then
           (let isInitialPageLoad =
                  (referrer window = [] \<or> str_includes (referrer window) (origin window))
            in if \<not> isInitialPageLoad
               then (ls\<lparr>token := None, user_item := NoItem\<rparr>, Some ''/auth/login'', err)
               else (ls, None, err))
         else (ls, None, err))
      else (ls, None, err))"

text \<open>
  The rejected responses of one document in their order of arrival, each with the path
  shown when it arrived: the first ones arrive while the page loads, the later ones
  afterwards. The handler runs on each. \<open>document.referrer\<close> and the origin are fixed
  when the document is created and stay as they are; an assignment to
  \<open>window.location.href\<close> ends the document.
\<close>

fun handle_rejections ::
  "browser \<Rightarrow> local_storage \<Rightarrow> (string \<times> error) list \<Rightarrow> local_storage \<times> string option" where
  "handle_rejections window ls [] = (ls, None)"
| "handle_rejections window ls ((path, err) # later) =
     (case response_error_handler err (window\<lparr>pathname := path\<rparr>) ls of
        (ls', Some href, err') \<Rightarrow> (ls', Some href)
      | (ls', None, err') \<Rightarrow> handle_rejections window ls' later)"

section \<open>Resource modules with fallback endpoints (services/api.ts)\<close>

text \<open>
  A response is what \<open>api.get\<close> resolves with, or an object the module builds itself
  (\<open>{ data: ... }\<close>, with no status). A request is a URL with its \<open>params\<close>. The
  backend is a function from requests to outcomes: \<open>Inl\<close> is a rejected request.
\<close>

record response =
  data :: json
  status :: "int option"

type_synonym request = "string \<times> (string \<times> string) list"

type_synonym backend = "request \<Rightarrow> error + response"




text \<open>
  The loop of \<open>getAvailableSlots\<close> over its list of endpoints, with \<open>lastError\<close> as the
  loop carries it. The second component lists the requests issued, in order.
  \<open>Inl None\<close> is \<open>throw null\<close>, which only an empty list of endpoints reaches.
\<close>

fun getAvailableSlots_loop ::
  "backend \<Rightarrow> string list \<Rightarrow> error option \<Rightarrow> (error option + response) \<times> request list" where
  "getAvailableSlots_loop get [] lastError = (Inl lastError, [])"
| "getAvailableSlots_loop get (endpoint # rest) lastError =
     (case get (endpoint, []) of
        Inr response \<Rightarrow>
          (if endpoint = ''/api/slot/''
           then (Inr \<lparr>data = JObj
                   [(''warning'', JStr ''Using generic slots as fallback. Time conflicts may not be detected.''),
                    (''slots'', data response)],
                  status = None\<rparr>, [(endpoint, [])])
           else (Inr response, [(endpoint, [])]))
      | Inl err \<Rightarrow>
          (case getAvailableSlots_loop get rest (Some err) of
             (r, tried) \<Rightarrow> (r, (endpoint, []) # tried)))"



text \<open>
  What the accepted endpoint's response becomes: the generic slot endpoint is wrapped
  with a warning, every other response is returned as it is.
\<close>

definition normalized_slots :: "string \<Rightarrow> response \<Rightarrow> response" where
  "normalized_slots endpoint r =
     (if endpoint = ''/api/slot/''
      then \<lparr>data = JObj
              [(''warning'', JStr ''Using generic slots as fallback. Time conflicts may not be detected.''),
               (''slots'', data r)],
            status = None\<rparr>
      else r)"

text \<open>
  A fallback chain as the specification words it, over an ordered list of candidate
  requests: the first candidate that succeeds is accepted and no later one is attempted;
  when every candidate fails, the error of the last attempt is thrown.
\<close>

fun spec_fallback ::
  "backend \<Rightarrow> request list \<Rightarrow> error option \<Rightarrow> (error option + response) \<times> request list" where
  "spec_fallback get [] lastError = (Inl lastError, [])"
| "spec_fallback get (candidate # rest) lastError =
     (case get candidate of
        Inr response \<Rightarrow> (Inr response, [candidate])
      | Inl err \<Rightarrow>
          (case spec_fallback get rest (Some err) of
             (r, tried) \<Rightarrow> (r, candidate # tried)))"



section \<open>The Redux course-selection store\<close>

record CourseInfo =
  course_name :: string
  course_code :: string

record Course =
  c_id :: string
  c_course_id :: CourseInfo

record TeacherInfo =
  first_name :: string
  last_name :: string

record Teacher =
  t_id :: string
  t_teacher_id :: TeacherInfo

record Slot =
  s_id :: string
  day :: string
  start_time :: string
  end_time :: string

record CourseSelection =
  sel_id :: string
  course_details :: Course
  teacher_details :: Teacher
  slot_details :: Slot

record CourseSelectionState =
  availableCourses :: "Course list"
  availableTeachers :: "Teacher list"
  availableSlots :: "Slot list"
  myCourseSelections :: "CourseSelection list"
  loading :: bool
  error :: "string option"

definition initialState :: CourseSelectionState where
  "initialState =
     \<lparr>availableCourses = [], availableTeachers = [], availableSlots = [],
      myCourseSelections = [], loading = False, error = None\<rparr>"

text \<open>
  The actions of the six async thunks. A rejected action carries the string given to
  \<open>rejectWithValue\<close>; the fulfilled action of the delete thunk carries the deleted id.
\<close>

datatype action =
    FetchAvailableCourses_pending
  | FetchAvailableCourses_fulfilled "Course list"
  | FetchAvailableCourses_rejected string
  | FetchAvailableTeachers_pending
  | FetchAvailableTeachers_fulfilled "Teacher list"
  | FetchAvailableTeachers_rejected string
  | FetchAvailableSlots_pending
  | FetchAvailableSlots_fulfilled "Slot list"
  | FetchAvailableSlots_rejected string
  | FetchMyCourseSelections_pending
  | FetchMyCourseSelections_fulfilled "CourseSelection list"
  | FetchMyCourseSelections_rejected string
  | CreateCourseSelection_pending
  | CreateCourseSelection_fulfilled
  | CreateCourseSelection_rejected string
  | DeleteCourseSelection_pending
  | DeleteCourseSelection_fulfilled string
  | DeleteCourseSelection_rejected string

fun courseSelectionReducer :: "CourseSelectionState \<Rightarrow> action \<Rightarrow> CourseSelectionState" where
  "courseSelectionReducer state FetchAvailableCourses_pending =
     state\<lparr>loading := True, error := None\<rparr>"
| "courseSelectionReducer state (FetchAvailableCourses_fulfilled payload) =
     state\<lparr>availableCourses := payload, loading := False\<rparr>"
| "courseSelectionReducer state (FetchAvailableCourses_rejected payload) =
     state\<lparr>loading := False, error := Some payload\<rparr>"
| "courseSelectionReducer state FetchAvailableTeachers_pending =
     state\<lparr>loading := True, error := None\<rparr>"
| "courseSelectionReducer state (FetchAvailableTeachers_fulfilled payload) =
     state\<lparr>availableTeachers := payload, loading := False\<rparr>"
| "courseSelectionReducer state (FetchAvailableTeachers_rejected payload) =
     state\<lparr>loading := False, error := Some payload\<rparr>"
| "courseSelectionReducer state FetchAvailableSlots_pending =
     state\<lparr>loading := True, error := None\<rparr>"
| "courseSelectionReducer state (FetchAvailableSlots_fulfilled payload) =
     state\<lparr>availableSlots := payload, loading := False\<rparr>"
| "courseSelectionReducer state (FetchAvailableSlots_rejected payload) =
     state\<lparr>loading := False, error := Some payload\<rparr>"
| "courseSelectionReducer state FetchMyCourseSelections_pending =
     state\<lparr>loading := True, error := None\<rparr>"
| "courseSelectionReducer state (FetchMyCourseSelections_fulfilled payload) =
     state\<lparr>myCourseSelections := payload, loading := False\<rparr>"
| "courseSelectionReducer state (FetchMyCourseSelections_rejected payload) =
     state\<lparr>loading := False, error := Some payload\<rparr>"
| "courseSelectionReducer state CreateCourseSelection_pending =
     state\<lparr>loading := True, error := None\<rparr>"
| "courseSelectionReducer state CreateCourseSelection_fulfilled =
     state\<lparr>loading := False\<rparr>"
| "courseSelectionReducer state (CreateCourseSelection_rejected payload) =
     state\<lparr>loading := False, error := Some payload\<rparr>"
| "courseSelectionReducer state DeleteCourseSelection_pending =
     state\<lparr>loading := True, error := None\<rparr>"
| "courseSelectionReducer state (DeleteCourseSelection_fulfilled payload) =
     state\<lparr>myCourseSelections :=
              filter (\<lambda>selection. sel_id selection \<noteq> payload) (myCourseSelections state),
           loading := False\<rparr>"
| "courseSelectionReducer state (DeleteCourseSelection_rejected payload) =
     state\<lparr>loading := False, error := Some payload\<rparr>"

text \<open>
  \<open>Number(s)\<close> on a string, for the integers the ids are: white space is trimmed, the
  empty string is 0, a signed run of decimal digits or an unsigned \<open>0x\<close>, \<open>0o\<close> or
  \<open>0b\<close> literal is its value, and anything else is \<open>NaN\<close>. This agrees with
  JavaScript on every string except those that spell a number with a decimal point, an
  exponent or \<open>Infinity\<close> (which JavaScript reads as numbers and the model as \<open>NaN\<close>)
  and the integers from \<open>2^53\<close> on (which JavaScript rounds): the model is meant for ids
  written as plain integers.
\<close>

definition all_digits :: "nat \<Rightarrow> string \<Rightarrow> bool" where
  "all_digits radix ds = (ds \<noteq> [] \<and> list_all (\<lambda>c. digit_of radix c \<noteq> None) ds)"

definition Number_string :: "string \<Rightarrow> jsnum" where
  "Number_string str =
     (let t = rev (dropWhile is_ws (rev (dropWhile is_ws str)))
      in if t = [] then Num 0
         else if take 2 t = ''0x'' \<or> take 2 t = ''0X'' then
           (if all_digits 16 (drop 2 t) then Num (int (digits_value 16 (drop 2 t))) else NaN)
         else if take 2 t = ''0o'' \<or> take 2 t = ''0O'' then
           (if all_digits 8 (drop 2 t) then Num (int (digits_value 8 (drop 2 t))) else NaN)
         else if take 2 t = ''0b'' \<or> take 2 t = ''0B'' then
           (if all_digits 2 (drop 2 t) then Num (int (digits_value 2 (drop 2 t))) else NaN)
         else
           (let sign = (if hd t = CHR ''-'' then - 1 else (1::int));
                ds = (if hd t = CHR ''-'' \<or> hd t = CHR ''+'' then tl t else t)
            in if all_digits 10 ds then Num (sign * int (digits_value 10 ds)) else NaN))"

text \<open>
  The calls that reach the \<open>studentCourseApi\<close> module, each one HTTP request to the
  backend, and the backend's answers to them.
\<close>

datatype api_call =
    GetAvailableCourses
  | GetAvailableTeachers string
  | GetAvailableSlots string string
  | GetMyCourseSelections
  | CreateCourseSelection jsnum jsnum jsnum
  | DeleteCourseSelection jsnum

record ('c, 't, 's, 'sel) server =
  available_courses :: "error + 'c list"
  available_teachers :: "string \<Rightarrow> error + 't list"
  available_slots :: "string \<Rightarrow> string \<Rightarrow> error + 's list"
  my_selections :: "error + 'sel list"
  create_selection :: "jsnum \<Rightarrow> jsnum \<Rightarrow> jsnum \<Rightarrow> error + json"
  delete_selection :: "jsnum \<Rightarrow> error + json"

type_synonym store_server = "(Course, Teacher, Slot, CourseSelection) server"

fun message :: "error \<Rightarrow> string" where
  "message (HttpError st msg) = msg"
| "message (Error msg) = msg"
| "message TypeError = ''TypeError''"
| "message SyntaxError = ''SyntaxError''"

text \<open>\<open>error.message || fallback\<close>.\<close>

definition message_or :: "error \<Rightarrow> string \<Rightarrow> string" where
  "message_or err fallback = (if message err \<noteq> [] then message err else fallback)"

text \<open>
  \<open>studentCourseApi.getMyCourseSelections\<close> catches a failed request and answers with
  the empty list.
\<close>

definition getMyCourseSelections :: "('c, 't, 's, 'sel) server \<Rightarrow> 'sel list" where
  "getMyCourseSelections srv = (case my_selections srv of Inr sels \<Rightarrow> sels | Inl err \<Rightarrow> [])"

text \<open>
  The thunks a component dispatches, with their arguments, and what dispatching one to
  completion does: the pending action, the call to the API module, then the fulfilled
  or the rejected action. The promise \<open>dispatch\<close> returns resolves in both cases.
\<close>

datatype thunk =
    fetchAvailableCourses
  | fetchAvailableTeachers string
  | fetchAvailableSlots string string
  | fetchMyCourseSelections
  | createCourseSelection string string string
  | deleteCourseSelection string

fun dispatch :: "store_server \<Rightarrow> thunk \<Rightarrow> CourseSelectionState \<Rightarrow> CourseSelectionState \<times> api_call list" where
  "dispatch srv fetchAvailableCourses state =
     (let pending = courseSelectionReducer state FetchAvailableCourses_pending
      in (case available_courses srv of
            Inr payload \<Rightarrow> courseSelectionReducer pending (FetchAvailableCourses_fulfilled payload)
          | Inl err \<Rightarrow> courseSelectionReducer pending
              (FetchAvailableCourses_rejected (message_or err ''Failed to fetch available courses'')),
          [GetAvailableCourses]))"
| "dispatch srv (fetchAvailableTeachers courseId) state =
     (let pending = courseSelectionReducer state FetchAvailableTeachers_pending
      in (case available_teachers srv courseId of
            Inr payload \<Rightarrow> courseSelectionReducer pending (FetchAvailableTeachers_fulfilled payload)
          | Inl err \<Rightarrow> courseSelectionReducer pending
              (FetchAvailableTeachers_rejected (message_or err ''Failed to fetch available teachers'')),
          [GetAvailableTeachers courseId]))"
| "dispatch srv (fetchAvailableSlots courseId teacherId) state =
     (let pending = courseSelectionReducer state FetchAvailableSlots_pending
      in (case available_slots srv courseId teacherId of
            Inr payload \<Rightarrow> courseSelectionReducer pending (FetchAvailableSlots_fulfilled payload)
          | Inl err \<Rightarrow> courseSelectionReducer pending
              (FetchAvailableSlots_rejected (message_or err ''Failed to fetch available slots'')),
          [GetAvailableSlots courseId teacherId]))"
| "dispatch srv fetchMyCourseSelections state =
     (let pending = courseSelectionReducer state FetchMyCourseSelections_pending
      in (courseSelectionReducer pending (FetchMyCourseSelections_fulfilled (getMyCourseSelections srv)),
          [GetMyCourseSelections]))"
| "dispatch srv (createCourseSelection course_id teacher_id slot_id) state =
     (let pending = courseSelectionReducer state CreateCourseSelection_pending;
          c = Number_string course_id; t = Number_string teacher_id; s = Number_string slot_id
      in (case create_selection srv c t s of
            Inr payload \<Rightarrow> courseSelectionReducer pending CreateCourseSelection_fulfilled
          | Inl err \<Rightarrow> courseSelectionReducer pending
              (CreateCourseSelection_rejected (message_or err ''Failed to create course selection'')),
          [CreateCourseSelection c t s]))"
| "dispatch srv (deleteCourseSelection ident) state =
     (let pending = courseSelectionReducer state DeleteCourseSelection_pending
      in (case delete_selection srv (Number_string ident) of
            Inr payload \<Rightarrow> courseSelectionReducer pending (DeleteCourseSelection_fulfilled ident)
          | Inl err \<Rightarrow> courseSelectionReducer pending
              (DeleteCourseSelection_rejected (message_or err ''Failed to delete course selection'')),
          [DeleteCourseSelection (Number_string ident)]))"

section \<open>The Redux-backed course-selection form\<close>

text \<open>
  The three transient selections of a course-selection component. In the Redux-backed
  form they are strings and the empty string is "unset"; in the course-selection page
  they are objects or \<open>null\<close>.
\<close>

record ('c, 't, 's) selection =
  selectedCourse :: 'c
  selectedTeacher :: 't
  selectedSlot :: 's

type_synonym form = "(string, string, string) selection"

text \<open>
  The change handlers return the new selections and the thunks they dispatch; they
  read no response.
\<close>

definition handleCourseChange :: "string \<Rightarrow> form \<Rightarrow> form \<times> thunk list" where
  "handleCourseChange courseId f =
     (f\<lparr>selectedCourse := courseId, selectedTeacher := [], selectedSlot := []\<rparr>,
      if courseId \<noteq> [] then [fetchAvailableTeachers courseId] else [])"

definition handleTeacherChange :: "string \<Rightarrow> form \<Rightarrow> form \<times> thunk list" where
  "handleTeacherChange teacherId f =
     (f\<lparr>selectedTeacher := teacherId, selectedSlot := []\<rparr>,
      if teacherId \<noteq> [] \<and> selectedCourse f \<noteq> []
      then [fetchAvailableSlots (selectedCourse f) teacherId] else [])"

definition setSelectedSlot :: "string \<Rightarrow> form \<Rightarrow> form" where
  "setSelectedSlot slotId f = f\<lparr>selectedSlot := slotId\<rparr>"

text \<open>
  \<open>handleSubmit\<close> of the form: when the three selections are set it awaits the create
  thunk, then resets the form and dispatches the refresh of the confirmed list. The
  result is the form, the store, and the calls made to the API module.
\<close>

definition handleSubmit_form ::
  "store_server \<Rightarrow> form \<times> CourseSelectionState \<Rightarrow> form \<times> CourseSelectionState \<times> api_call list" where
  "handleSubmit_form srv st =
     (case st of (f, state) \<Rightarrow>
        if selectedCourse f \<noteq> [] \<and> selectedTeacher f \<noteq> [] \<and> selectedSlot f \<noteq> [] then
          (case dispatch srv
                  (createCourseSelection (selectedCourse f) (selectedTeacher f) (selectedSlot f)) state of
             (state1, calls1) \<Rightarrow>
               (case dispatch srv fetchMyCourseSelections state1 of
                  (state2, calls2) \<Rightarrow>
                    (f\<lparr>selectedCourse := [], selectedTeacher := [], selectedSlot := []\<rparr>,
                     state2, calls1 @ calls2)))
        else (f, state, []))"

section \<open>The course-selection page\<close>

text \<open>
  The entities of the page, with their required fields (the optional display fields and
  the debugging copy of the raw record play no part in the handlers).
\<close>

record PageCourse =
  pc_id :: int
  pc_course_id :: int
  course_semester :: int
  course_year :: int
  elective_type :: string
  for_dept_id :: int
  teaching_dept_id :: int
  lab_type :: string
  need_assist_teacher :: bool
  teaching_status :: string

record PageTeacher =
  pt_id :: int
  pt_name :: string
  department :: string
  available_slots_of :: "string list"

record PageSlot =
  ps_id :: int
  ps_name :: string
  ps_day :: string
  ps_start_time :: string
  ps_end_time :: string
  room :: string
  is_from_timetable :: bool

record PageSelection =
  psel_id :: "int option"
  psel_course_id :: int
  psel_teacher_id :: int
  psel_slot_id :: int

text \<open>
  The page state: the three selections and \<open>mySelections\<close>, the data of the
  \<open>my-selections\<close> query (the confirmed list).
\<close>

record page = "(PageCourse option, PageTeacher option, PageSlot option) selection" +
  mySelections :: "PageSelection list"

type_synonym page_server = "(PageCourse, PageTeacher, PageSlot, PageSelection) server"

datatype effect =
    Toast_error string
  | Toast_success string
  | InvalidateQueries string
  | RefetchSelections
  | ApiCall api_call

definition handleSelectCourse :: "PageCourse \<Rightarrow> page \<Rightarrow> page" where
  "handleSelectCourse course p =
     p\<lparr>selectedCourse := Some course, selectedTeacher := None, selectedSlot := None\<rparr>"

definition handleSelectTeacher :: "PageTeacher \<Rightarrow> page \<Rightarrow> page" where
  "handleSelectTeacher teacher p = p\<lparr>selectedTeacher := Some teacher, selectedSlot := None\<rparr>"

definition handleSelectSlot :: "PageSlot \<Rightarrow> page \<Rightarrow> page" where
  "handleSelectSlot slot p = p\<lparr>selectedSlot := Some slot\<rparr>"

text \<open>
  The \<open>createSelection\<close> mutation run to completion: \<open>mutationFn\<close> calls the API module
  once; \<open>onSuccess\<close> invalidates the confirmed list and refetches it (each of the two
  starts a fetch of the list), reports, and clears the three selections; \<open>onError\<close> only
  reports.
\<close>

definition createSelection :: "page_server \<Rightarrow> int \<Rightarrow> int \<Rightarrow> int \<Rightarrow> page \<Rightarrow> page \<times> effect list" where
  "createSelection srv course_id teacher_id slot_id p =
     (case create_selection srv (Num course_id) (Num teacher_id) (Num slot_id) of
        Inr payload \<Rightarrow>
          (p\<lparr>selectedCourse := None, selectedTeacher := None, selectedSlot := None,
             mySelections := getMyCourseSelections srv\<rparr>,
           [ApiCall (CreateCourseSelection (Num course_id) (Num teacher_id) (Num slot_id)),
            InvalidateQueries ''my-selections'', ApiCall GetMyCourseSelections,
            RefetchSelections, ApiCall GetMyCourseSelections,
            Toast_success ''Course added to your selection!''])
      | Inl err \<Rightarrow>
          (p,
           [ApiCall (CreateCourseSelection (Num course_id) (Num teacher_id) (Num slot_id)),
            Toast_error ''Failed to select course. Please try again.'']))"

definition handleSubmit_page :: "page_server \<Rightarrow> page \<Rightarrow> page \<times> effect list" where
  "handleSubmit_page srv p =
     (case (selectedCourse p, selectedTeacher p, selectedSlot p) of
        (Some course, Some teacher, Some slot) \<Rightarrow>
          createSelection srv (pc_id course) (pt_id teacher) (ps_id slot) p
      | _ \<Rightarrow> (p, [Toast_error ''Please select course, teacher, and time slot'']))"

text \<open>The create-selection calls among the effects of a handler.\<close>

fun create_calls :: "effect list \<Rightarrow> api_call list" where
  "create_calls [] = []"
| "create_calls (ApiCall (CreateCourseSelection c t s) # es) = CreateCourseSelection c t s # create_calls es"
| "create_calls (e # es) = create_calls es"

fun is_create :: "api_call \<Rightarrow> bool" where
  "is_create (CreateCourseSelection c t s) = True"
| "is_create call = False"

section \<open>Histories of selection events\<close>

text \<open>
  To say that a choice is not stale, each choice is remembered together with the
  upstream choices that were current when it was made: \<open>teacher_under\<close> is the course
  selected when the teacher was chosen, \<open>slot_under\<close> the course and teacher selected
  when the slot was chosen. These are bookkeeping of the proof, not state of the code.
\<close>

record ('c, 't) provenance =
  teacher_under :: 'c
  slot_under :: "'c \<times> 't"

datatype form_event =
    CourseChange string
  | TeacherChange string
  | SlotChange string
  | Submit_form store_server

fun form_step ::
  "(form \<times> CourseSelectionState) \<times> (string, string) provenance \<Rightarrow> form_event
   \<Rightarrow> (form \<times> CourseSelectionState) \<times> (string, string) provenance" where
  "form_step ((f, state), h) (CourseChange courseId) =
     ((fst (handleCourseChange courseId f), state), h)"
| "form_step ((f, state), h) (TeacherChange teacherId) =
     ((fst (handleTeacherChange teacherId f), state), h\<lparr>teacher_under := selectedCourse f\<rparr>)"
| "form_step ((f, state), h) (SlotChange slotId) =
     ((setSelectedSlot slotId f, state), h\<lparr>slot_under := (selectedCourse f, selectedTeacher f)\<rparr>)"
| "form_step ((f, state), h) (Submit_form srv) =
     (case handleSubmit_form srv (f, state) of (f', state', calls) \<Rightarrow> ((f', state'), h))"

definition form_fresh :: "form \<times> (string, string) provenance \<Rightarrow> bool" where
  "form_fresh fh =
     (case fh of (f, h) \<Rightarrow>
        (selectedTeacher f = [] \<or> teacher_under h = selectedCourse f) \<and>
        (selectedSlot f = [] \<or> slot_under h = (selectedCourse f, selectedTeacher f)))"

datatype page_event =
    SelectCourse PageCourse
  | SelectTeacher PageTeacher
  | SelectSlot PageSlot
  | Submit_page page_server

fun page_step ::
  "page \<times> (PageCourse option, PageTeacher option) provenance \<Rightarrow> page_event
   \<Rightarrow> page \<times> (PageCourse option, PageTeacher option) provenance" where
  "page_step (p, h) (SelectCourse course) = (handleSelectCourse course p, h)"
| "page_step (p, h) (SelectTeacher teacher) =
     (handleSelectTeacher teacher p, h\<lparr>teacher_under := selectedCourse p\<rparr>)"
| "page_step (p, h) (SelectSlot slot) =
     (handleSelectSlot slot p, h\<lparr>slot_under := (selectedCourse p, selectedTeacher p)\<rparr>)"
| "page_step (p, h) (Submit_page srv) = (fst (handleSubmit_page srv p), h)"

definition page_fresh :: "page \<times> (PageCourse option, PageTeacher option) provenance \<Rightarrow> bool" where
  "page_fresh ph =
     (case ph of (p, h) \<Rightarrow>
        (selectedTeacher p = None \<or> teacher_under h = selectedCourse p) \<and>
        (selectedSlot p = None \<or> slot_under h = (selectedCourse p, selectedTeacher p)))"

section \<open>The session context (contexts/auth-context.tsx)\<close>






text \<open>A guarded read: the receiver is known not to be \<open>null\<close> or \<open>undefined\<close>.\<close>

definition read_prop :: "json \<Rightarrow> string \<Rightarrow> json" where
  "read_prop v k = (case get_prop v k of None \<Rightarrow> JUndefined | Some x \<Rightarrow> x)"












section \<open>Example data\<close>

text \<open>Concrete backends, entities and browser states on which the theorems are run.\<close>

definition accepting_server :: "('c, 't, 's, 'sel) server" where
  "accepting_server =
     \<lparr>available_courses = Inr [], available_teachers = (\<lambda>courseId. Inr []),
      available_slots = (\<lambda>courseId teacherId. Inr []), my_selections = Inr [],
      create_selection = (\<lambda>c t s. Inr JNull), delete_selection = (\<lambda>i. Inr JNull)\<rparr>"

definition refusing_server :: "('c, 't, 's, 'sel) server" where
  "refusing_server =
     \<lparr>available_courses = Inr [], available_teachers = (\<lambda>courseId. Inr []),
      available_slots = (\<lambda>courseId teacherId. Inr []), my_selections = Inr [],
      create_selection = (\<lambda>c t s. Inl (HttpError (Some 400) ''Request failed with status code 400'')),
      delete_selection = (\<lambda>i. Inr JNull)\<rparr>"

definition example_course :: PageCourse where
  "example_course =
     \<lparr>pc_id = 11, pc_course_id = 301, course_semester = 3, course_year = 2,
      elective_type = ''regular'', for_dept_id = 1, teaching_dept_id = 1, lab_type = ''none'',
      need_assist_teacher = False, teaching_status = ''active''\<rparr>"

definition example_teacher :: PageTeacher where
  "example_teacher = \<lparr>pt_id = 7, pt_name = ''A. Rao'', department = ''CSE'', available_slots_of = []\<rparr>"

definition example_slot :: PageSlot where
  "example_slot =
     \<lparr>ps_id = 4, ps_name = ''Mon 9'', ps_day = ''Monday'', ps_start_time = ''09:00'',
      ps_end_time = ''10:00'', room = ''B12'', is_from_timetable = True\<rparr>"

definition example_window :: browser where
  "example_window =
     \<lparr>hostname = ''portal.example.edu'', protocol = ''https:'', pathname = ''/dashboard'',
      origin = ''https://portal.example.edu'', referrer = ''https://sso.example.org/''\<rparr>"

definition example_user :: json where
  "example_user = JObj [(''id'', JNum 42), (''email'', JStr ''a@b.c''), (''first_name'', JStr ''Asha'')]"

definition example_storage :: local_storage where
  "example_storage =
     \<lparr>token = Some ''t0k'', user_item = Item example_user,
      api_base_url = Some ''http://10.0.0.5:8000''\<rparr>"





section \<open>Properties of the semester arithmetic\<close>

lemma calculateAcademicYear_int:
  "calculateAcademicYear (of_int s) = (s + 1) div 2"
  unfolding calculateAcademicYear_def by linarith

lemma get_prop_defined:
  "get_prop v k = Some x \<Longrightarrow> \<exists>y. get_prop v k' = Some y"
  by (cases v) (auto split: option.splits)

text \<open>
  C7. When the stored user has no truthy \<open>current_semester\<close> and its \<open>batch\<close> parses to
  a positive year \<open>b\<close>, \<open>calculateCurrentSemester\<close> returns
  \<open>(currentYear - b) * 2 + 1\<close>, plus one when the month index is 6 or more, clamped to
  the range 1 to 8 whatever the number of years elapsed. Batch year 2022 on
  2024-08-15 (month index 7) gives semester 6.
\<close>

theorem semester_from_batch_year:
  assumes "truthy (read_prop userData ''batch'')"
      and "parseInt (read_prop userData ''batch'') = Num b"
      and "0 < b"
      and "\<not> truthy (read_prop userData ''current_semester'')"
  shows "calculateCurrentSemester (Item userData) currentYear currentMonth =
           Num (min (max ((currentYear - b) * 2 + 1 + (if 6 \<le> currentMonth then 1 else 0)) 1) 8)
         \<and> (\<exists>s. calculateCurrentSemester (Item userData) currentYear currentMonth = Num s
                  \<and> 1 \<le> s \<and> s \<le> 8)
         \<and> calculateCurrentSemester (Item (JObj [(''batch'', JNum 2022)])) 2024 7 = Num 6"
proof -
  obtain batch where b: "get_prop userData ''batch'' = Some batch"
    using assms(1) by (cases "get_prop userData ''batch''") (auto simp: read_prop_def)
  then obtain cs where c: "get_prop userData ''current_semester'' = Some cs"
    using get_prop_defined by blast
  have tb: "truthy batch" and pb: "parseInt batch = Num b"
    using assms(1,2) b by (simp_all add: read_prop_def)
  have tc: "\<not> truthy cs" using assms(4) c by (simp add: read_prop_def)
  have main: "calculateCurrentSemester (Item userData) currentYear currentMonth =
           Num (min (max ((currentYear - b) * 2 + 1 + (if 6 \<le> currentMonth then 1 else 0)) 1) 8)"
    using b c tb pb tc assms(3) by (simp add: calculateCurrentSemester_def Let_def)
  have ex: "calculateCurrentSemester (Item (JObj [(''batch'', JNum 2022)])) 2024 7 = Num 6"
    by (simp add: calculateCurrentSemester_def Let_def)
  show ?thesis using main ex by simp
qed

theorem semester_from_batch_year_witness:
  "truthy (read_prop (JObj [(''batch'', JStr ''2019'')]) ''batch'')
   \<and> parseInt (read_prop (JObj [(''batch'', JStr ''2019'')]) ''batch'') = Num 2019
   \<and> \<not> truthy (read_prop (JObj [(''batch'', JStr ''2019'')]) ''current_semester'')
   \<and> calculateCurrentSemester (Item (JObj [(''batch'', JStr ''2019'')])) 2025 2 = Num 8"
proof -
  have p: "parseInt (read_prop (JObj [(''batch'', JStr ''2019'')]) ''batch'') = Num 2019"
    by (simp add: read_prop_def parseInt_string_def is_ws_def digit_of_def digits_value_def Let_def)
  have t: "truthy (read_prop (JObj [(''batch'', JStr ''2019'')]) ''batch'')"
    by (simp add: read_prop_def)
  have n: "\<not> truthy (read_prop (JObj [(''batch'', JStr ''2019'')]) ''current_semester'')"
    by (simp add: read_prop_def)
  show ?thesis
    using semester_from_batch_year [OF t p _ n, of 2025 2] p t n by simp
qed

text \<open>
  C8. For every semester \<open>s\<close> from 1 to 8, \<open>calculateAcademicYear s\<close> is the ceiling of
  \<open>s / 2\<close> (a year from 1 to 4), \<open>estimateBatchYear s\<close> is the current year minus that
  academic year plus one, and the round trip is consistent: the academic year is recovered
  from the estimated batch year, and a semester recomputed from the estimated batch year
  in the same calendar year lies in the same academic year.
\<close>

theorem academic_year_batch_year:
  assumes "1 \<le> s" and "s \<le> 8"
  shows "calculateAcademicYear (of_int s) = \<lceil>real_of_int s / 2\<rceil>
       \<and> calculateAcademicYear (of_int s) = (s + 1) div 2
       \<and> 1 \<le> calculateAcademicYear (of_int s) \<and> calculateAcademicYear (of_int s) \<le> 4
       \<and> estimateBatchYear currentYear (of_int s) = currentYear - calculateAcademicYear (of_int s) + 1
       \<and> currentYear - estimateBatchYear currentYear (of_int s) + 1 = calculateAcademicYear (of_int s)
       \<and> (0 < estimateBatchYear currentYear (of_int s) \<longrightarrow>
            (\<exists>s'. calculateCurrentSemester
                    (Item (JObj [(''batch'', JNum (estimateBatchYear currentYear (of_int s)))]))
                    currentYear currentMonth = Num s'
                 \<and> calculateAcademicYear (of_int s') = calculateAcademicYear (of_int s)))"
proof -
  have a: "calculateAcademicYear (of_int s) = (s + 1) div 2"
    by (rule calculateAcademicYear_int)
  have e: "estimateBatchYear currentYear (of_int s) = currentYear - (s + 1) div 2 + 1"
    by (simp add: estimateBatchYear_def a)
  have r: "0 < estimateBatchYear currentYear (of_int s) \<Longrightarrow>
            (\<exists>s'. calculateCurrentSemester
                    (Item (JObj [(''batch'', JNum (estimateBatchYear currentYear (of_int s)))]))
                    currentYear currentMonth = Num s'
                 \<and> calculateAcademicYear (of_int s') = calculateAcademicYear (of_int s))"
  proof -
    assume pos: "0 < estimateBatchYear currentYear (of_int s)"
    let ?raw = "((s + 1) div 2 - 1) * 2 + (if 6 \<le> currentMonth then 1 else 0) + 1"
    have c: "calculateCurrentSemester
                    (Item (JObj [(''batch'', JNum (estimateBatchYear currentYear (of_int s)))]))
                    currentYear currentMonth = Num (min (max ?raw 1) 8)"
      using pos by (simp add: calculateCurrentSemester_def Let_def e)
    have "(min (max ?raw 1) 8 + 1) div 2 = (s + 1) div 2"
    proof (cases "6 \<le> currentMonth")
      case True
      then show ?thesis using assms by (simp add: min_def max_def) presburger
    next
      case False
      then show ?thesis using assms by (simp add: min_def max_def) presburger
    qed
    then show ?thesis using c by (simp only: calculateAcademicYear_int) blast
  qed
  have d: "calculateAcademicYear (of_int s) = \<lceil>real_of_int s / 2\<rceil>"
    by (simp add: calculateAcademicYear_def)
  have rng: "1 \<le> (s + 1) div 2 \<and> (s + 1) div 2 \<le> 4"
    using assms by presburger
  have inv: "currentYear - estimateBatchYear currentYear (of_int s) + 1 = (s + 1) div 2"
    using e by simp
  from r have rr: "0 < estimateBatchYear currentYear (of_int s) \<longrightarrow>
            (\<exists>s'. calculateCurrentSemester
                    (Item (JObj [(''batch'', JNum (estimateBatchYear currentYear (of_int s)))]))
                    currentYear currentMonth = Num s'
                 \<and> calculateAcademicYear (of_int s') = calculateAcademicYear (of_int s))"
    by blast
  from a rng have rng': "1 \<le> calculateAcademicYear (of_int s) \<and> calculateAcademicYear (of_int s) \<le> 4"
    by simp
  from a inv have inv': "currentYear - estimateBatchYear currentYear (of_int s) + 1 = calculateAcademicYear (of_int s)"
    by simp
  from a e have e': "estimateBatchYear currentYear (of_int s) = currentYear - calculateAcademicYear (of_int s) + 1"
    by simp
  show ?thesis
    using a d e' rr rng' inv' by blast
qed

theorem academic_year_batch_year_witness:
  "(1::int) \<le> 6 \<and> (6::int) \<le> 8
   \<and> calculateAcademicYear (of_int 6) = 3
   \<and> estimateBatchYear 2024 (of_int 6) = 2022
   \<and> 0 < estimateBatchYear 2024 (of_int 6)
   \<and> calculateAcademicYear (of_int 5) = 3
   \<and> calculateCurrentSemester (Item (JObj [(''batch'', JNum 2022)])) 2024 3 = Num 5"
proof -
  have c: "calculateCurrentSemester (Item (JObj [(''batch'', JNum 2022)])) 2024 3 = Num 5"
    by (simp add: calculateCurrentSemester_def Let_def)
  have e: "estimateBatchYear 2024 (of_int 6) = 2022"
    using academic_year_batch_year [of 6 2024 3] by simp
  have f: "calculateAcademicYear (of_int 5) = 3"
    using calculateAcademicYear_int [of 5] by simp
  show ?thesis
    using academic_year_batch_year [of 6 2024 3] c e f by simp
qed

section \<open>Properties of the Redux store\<close>

text \<open>
  C10. When a delete operation fulfils, the entries of \<open>myCourseSelections\<close> whose id is
  the deleted id are removed and no others: the remaining entries keep their order and
  their multiplicity, and \<open>availableCourses\<close>, \<open>availableTeachers\<close>,
  \<open>availableSlots\<close> and \<open>error\<close> are unchanged.
\<close>

theorem delete_fulfilled_frame:
  "myCourseSelections (courseSelectionReducer state (DeleteCourseSelection_fulfilled deleted)) =
     filter (\<lambda>selection. sel_id selection \<noteq> deleted) (myCourseSelections state)
   \<and> set (myCourseSelections (courseSelectionReducer state (DeleteCourseSelection_fulfilled deleted))) =
       set (myCourseSelections state) - {selection. sel_id selection = deleted}
   \<and> subseq (myCourseSelections (courseSelectionReducer state (DeleteCourseSelection_fulfilled deleted)))
        (myCourseSelections state)
   \<and> (\<forall>selection. count_list
          (myCourseSelections (courseSelectionReducer state (DeleteCourseSelection_fulfilled deleted)))
          selection =
        (if sel_id selection = deleted then 0 else count_list (myCourseSelections state) selection))
   \<and> availableCourses (courseSelectionReducer state (DeleteCourseSelection_fulfilled deleted)) =
       availableCourses state
   \<and> availableTeachers (courseSelectionReducer state (DeleteCourseSelection_fulfilled deleted)) =
       availableTeachers state
   \<and> availableSlots (courseSelectionReducer state (DeleteCourseSelection_fulfilled deleted)) =
       availableSlots state
   \<and> error (courseSelectionReducer state (DeleteCourseSelection_fulfilled deleted)) = error state"
proof -
  have cnt: "count_list (filter P xs) x = (if P x then count_list xs x else 0)" for P and xs :: "'a list" and x
    by (induction xs) auto
  show ?thesis by (auto simp: cnt)
qed

section \<open>Properties of the HTTP client\<close>

lemma str_includes_sublist: "str_includes s sub = sublist sub s"
  by (induction s) (simp_all add: sublist_Cons_right)

lemma str_includes_iff: "str_includes s sub \<longleftrightarrow> (\<exists>pre post. s = pre @ sub @ post)"
  by (simp add: str_includes_sublist sublist_def)


lemma unauthorized_cases:
  assumes "response_status err = Some 401"
  shows "(\<not> str_includes (pathname window) ''/auth/login''
            \<and> referrer window \<noteq> [] \<and> \<not> str_includes (referrer window) (origin window)
          \<longrightarrow> response_error_handler err window ls =
                (ls\<lparr>token := None, user_item := NoItem\<rparr>, Some ''/auth/login'', err))
       \<and> (str_includes (pathname window) ''/auth/login''
            \<or> referrer window = [] \<or> str_includes (referrer window) (origin window)
          \<longrightarrow> response_error_handler err window ls = (ls, None, err))"
  using assms by (auto simp: response_error_handler_def Let_def)

lemma own_referrer_never_tears_down:
  assumes "referrer window = [] \<or> str_includes (referrer window) (origin window)"
  shows "handle_rejections window ls arrivals = (ls, None)"
proof (induction arrivals)
  case Nil
  then show ?case by simp
next
  case (Cons a arrivals)
  obtain path err where a: "a = (path, err)" by (cases a)
  have "response_error_handler err (window\<lparr>pathname := path\<rparr>) ls = (ls, None, err)"
    using assms by (auto simp: response_error_handler_def Let_def)
  then show ?case using a Cons by simp
qed

text \<open>
  C5. A 401 received off the login route and after the initial page load should clear
  the stored token and identity and redirect to the login screen, and one received during
  the initial page load should not. The handler decides with a flag it calls
  \<open>isInitialPageLoad\<close>, computed from \<open>document.referrer\<close>, which does not change while
  the document lives. In a document opened with no referrer, three 401 responses, the
  last two long after the load, leave the storage as it is and redirect nowhere. In a
  document entered from another site, the first 401, during the load, clears the storage
  and redirects.
\<close>

theorem unauthorized_ignores_load_phase:
  "handle_rejections (example_window\<lparr>referrer := []\<rparr>) example_storage
      [(''/dashboard'', HttpError (Some 401) ''Unauthorized''),
       (''/timetable'', HttpError (Some 401) ''Unauthorized''),
       (''/profile'', HttpError (Some 401) ''Unauthorized'')]
     = (example_storage, None)
   \<and> handle_rejections example_window example_storage
      [(''/dashboard'', HttpError (Some 401) ''Unauthorized'')]
     = (example_storage\<lparr>token := None, user_item := NoItem\<rparr>, Some ''/auth/login'')"
  by (simp add: response_error_handler_def example_window_def)




section \<open>Properties of submission\<close>

lemma handleSubmit_form_unset:
  "selectedCourse f = [] \<or> selectedTeacher f = [] \<or> selectedSlot f = []
   \<Longrightarrow> handleSubmit_form srv (f, state) = (f, state, [])"
  by (auto simp: handleSubmit_form_def)

lemma handleSubmit_form_set:
  assumes "selectedCourse f \<noteq> []" "selectedTeacher f \<noteq> []" "selectedSlot f \<noteq> []"
  shows "\<exists>state'. handleSubmit_form srv (f, state) =
           (f\<lparr>selectedCourse := [], selectedTeacher := [], selectedSlot := []\<rparr>, state',
            [CreateCourseSelection (Number_string (selectedCourse f))
               (Number_string (selectedTeacher f)) (Number_string (selectedSlot f)),
             GetMyCourseSelections])"
  using assms by (simp add: handleSubmit_form_def Let_def)

lemma handleSubmit_page_unset:
  "selectedCourse p = None \<or> selectedTeacher p = None \<or> selectedSlot p = None
   \<Longrightarrow> handleSubmit_page srv p = (p, [Toast_error ''Please select course, teacher, and time slot''])"
  by (auto simp: handleSubmit_page_def split: option.splits)

lemma handleSubmit_page_set:
  assumes "selectedCourse p = Some course" "selectedTeacher p = Some teacher" "selectedSlot p = Some slot"
  shows "handleSubmit_page srv p = createSelection srv (pc_id course) (pt_id teacher) (ps_id slot) p"
  using assms by (simp add: handleSubmit_page_def)

lemma create_calls_createSelection:
  "create_calls (snd (createSelection srv c t s p)) = [CreateCourseSelection (Num c) (Num t) (Num s)]"
  by (simp add: createSelection_def split: sum.splits)

lemma Number_string_examples:
  "Number_string ''11'' = Num 11" "Number_string ''7'' = Num 7" "Number_string ''4'' = Num 4"
  by (simp_all add: Number_string_def is_ws_def all_digits_def digit_of_def digits_value_def Let_def)

text \<open>
  C2. On the course-selection page, when one of the three selections is unset the
  submission is rejected with a message and makes no create-selection call; when all
  three are set it makes exactly one, with the ids of the chosen course, teacher and
  slot. The Redux-backed form behaves the same way: no call at all when a selection is
  empty, and exactly one create-selection call, with the three ids converted by
  \<open>Number\<close>, when all are set.
\<close>

theorem submission_guard:
  "((selectedCourse p = None \<or> selectedTeacher p = None \<or> selectedSlot p = None) \<longrightarrow>
      handleSubmit_page srv p = (p, [Toast_error ''Please select course, teacher, and time slot''])
      \<and> create_calls (snd (handleSubmit_page srv p)) = [])
   \<and> (selectedCourse p = Some course \<and> selectedTeacher p = Some teacher \<and> selectedSlot p = Some slot \<longrightarrow>
      create_calls (snd (handleSubmit_page srv p)) =
        [CreateCourseSelection (Num (pc_id course)) (Num (pt_id teacher)) (Num (ps_id slot))])
   \<and> ((selectedCourse f = [] \<or> selectedTeacher f = [] \<or> selectedSlot f = []) \<longrightarrow>
      handleSubmit_form ssrv (f, state) = (f, state, []))
   \<and> (selectedCourse f \<noteq> [] \<and> selectedTeacher f \<noteq> [] \<and> selectedSlot f \<noteq> [] \<longrightarrow>
      filter is_create (snd (snd (handleSubmit_form ssrv (f, state)))) =
        [CreateCourseSelection (Number_string (selectedCourse f))
           (Number_string (selectedTeacher f)) (Number_string (selectedSlot f))])"
proof -
  have a: "(selectedCourse p = None \<or> selectedTeacher p = None \<or> selectedSlot p = None) \<longrightarrow>
      handleSubmit_page srv p = (p, [Toast_error ''Please select course, teacher, and time slot''])
      \<and> create_calls (snd (handleSubmit_page srv p)) = []"
    using handleSubmit_page_unset [of p srv] by auto
  have b: "selectedCourse p = Some course \<and> selectedTeacher p = Some teacher \<and> selectedSlot p = Some slot \<longrightarrow>
      create_calls (snd (handleSubmit_page srv p)) =
        [CreateCourseSelection (Num (pc_id course)) (Num (pt_id teacher)) (Num (ps_id slot))]"
    by (simp add: handleSubmit_page_set create_calls_createSelection)
  have c: "(selectedCourse f = [] \<or> selectedTeacher f = [] \<or> selectedSlot f = []) \<longrightarrow>
      handleSubmit_form ssrv (f, state) = (f, state, [])"
    using handleSubmit_form_unset by blast
  have d: "selectedCourse f \<noteq> [] \<and> selectedTeacher f \<noteq> [] \<and> selectedSlot f \<noteq> [] \<longrightarrow>
      filter is_create (snd (snd (handleSubmit_form ssrv (f, state)))) =
        [CreateCourseSelection (Number_string (selectedCourse f))
           (Number_string (selectedTeacher f)) (Number_string (selectedSlot f))]"
  proof
    assume h: "selectedCourse f \<noteq> [] \<and> selectedTeacher f \<noteq> [] \<and> selectedSlot f \<noteq> []"
    then obtain state' where "handleSubmit_form ssrv (f, state) =
           (f\<lparr>selectedCourse := [], selectedTeacher := [], selectedSlot := []\<rparr>, state',
            [CreateCourseSelection (Number_string (selectedCourse f))
               (Number_string (selectedTeacher f)) (Number_string (selectedSlot f)),
             GetMyCourseSelections])"
      using handleSubmit_form_set [of f ssrv state] by blast
    then show "filter is_create (snd (snd (handleSubmit_form ssrv (f, state)))) =
        [CreateCourseSelection (Number_string (selectedCourse f))
           (Number_string (selectedTeacher f)) (Number_string (selectedSlot f))]"
      by simp
  qed
  show ?thesis using a b c d by blast
qed

theorem submission_guard_witness:
  "handleSubmit_page accepting_server
      \<lparr>selectedCourse = Some example_course, selectedTeacher = None, selectedSlot = None,
       mySelections = []\<rparr>
     = (\<lparr>selectedCourse = Some example_course, selectedTeacher = None, selectedSlot = None,
         mySelections = []\<rparr>,
        [Toast_error ''Please select course, teacher, and time slot''])
   \<and> create_calls (snd (handleSubmit_page accepting_server
      \<lparr>selectedCourse = Some example_course, selectedTeacher = Some example_teacher,
       selectedSlot = Some example_slot, mySelections = []\<rparr>))
     = [CreateCourseSelection (Num 11) (Num 7) (Num 4)]
   \<and> handleSubmit_form accepting_server
      (\<lparr>selectedCourse = ''11'', selectedTeacher = ''7'', selectedSlot = []\<rparr>, initialState)
     = (\<lparr>selectedCourse = ''11'', selectedTeacher = ''7'', selectedSlot = []\<rparr>, initialState, [])
   \<and> filter is_create (snd (snd (handleSubmit_form accepting_server
      (\<lparr>selectedCourse = ''11'', selectedTeacher = ''7'', selectedSlot = ''4''\<rparr>, initialState))))
     = [CreateCourseSelection (Num 11) (Num 7) (Num 4)]"
  using Number_string_examples
      submission_guard [of
        "\<lparr>selectedCourse = Some example_course, selectedTeacher = None, selectedSlot = None,
          mySelections = []\<rparr>"
        accepting_server example_course example_teacher example_slot
        "\<lparr>selectedCourse = ''11'', selectedTeacher = ''7'', selectedSlot = []\<rparr>"
        accepting_server initialState]
      submission_guard [of
        "\<lparr>selectedCourse = Some example_course, selectedTeacher = Some example_teacher,
          selectedSlot = Some example_slot, mySelections = []\<rparr>"
        accepting_server example_course example_teacher example_slot
        "\<lparr>selectedCourse = ''11'', selectedTeacher = ''7'', selectedSlot = ''4''\<rparr>"
        accepting_server initialState]
  by (simp add: example_course_def example_teacher_def example_slot_def)

lemma failed_create_page:
  assumes "selectedCourse p = Some course" "selectedTeacher p = Some teacher" "selectedSlot p = Some slot"
      and "create_selection srv (Num (pc_id course)) (Num (pt_id teacher)) (Num (ps_id slot)) = Inl err"
  shows "fst (handleSubmit_page srv p) = p"
  using assms by (simp add: handleSubmit_page_def createSelection_def)

lemma failed_create_form:
  assumes "selectedCourse f \<noteq> []" "selectedTeacher f \<noteq> []" "selectedSlot f \<noteq> []"
  shows "fst (handleSubmit_form srv (f, state)) =
           f\<lparr>selectedCourse := [], selectedTeacher := [], selectedSlot := []\<rparr>"
  using handleSubmit_form_set [OF assms, of srv state] by auto

text \<open>
  C3. A submission whose create-selection call fails should leave the three selections
  as they were. The page does: its mutation resets them in \<open>onSuccess\<close> only. The
  Redux-backed form does not: it resets them after awaiting the thunk, whose promise
  resolves for a rejected request too. With course 11, teacher 7 and slot 4 selected and
  a backend that answers the create request with status 400, the form comes back empty.
\<close>

theorem failed_create_resets_form:
  "create_selection (refusing_server :: store_server) (Num 11) (Num 7) (Num 4)
     = Inl (HttpError (Some 400) ''Request failed with status code 400'')
   \<and> handleSubmit_form refusing_server
       (\<lparr>selectedCourse = ''11'', selectedTeacher = ''7'', selectedSlot = ''4''\<rparr>, initialState)
     = (\<lparr>selectedCourse = [], selectedTeacher = [], selectedSlot = []\<rparr>,
        initialState,
        [CreateCourseSelection (Num 11) (Num 7) (Num 4), GetMyCourseSelections])
   \<and> fst (handleSubmit_page refusing_server
       \<lparr>selectedCourse = Some example_course, selectedTeacher = Some example_teacher,
        selectedSlot = Some example_slot, mySelections = []\<rparr>)
     = \<lparr>selectedCourse = Some example_course, selectedTeacher = Some example_teacher,
        selectedSlot = Some example_slot, mySelections = []\<rparr>"
  using Number_string_examples
  by (simp add: handleSubmit_form_def handleSubmit_page_def createSelection_def refusing_server_def
      initialState_def message_or_def getMyCourseSelections_def Let_def)

section \<open>Properties of the selection chain\<close>

lemma form_step_fresh:
  assumes "form_fresh (fst (fst s), snd s)"
  shows "form_fresh (fst (fst (form_step s ev)), snd (form_step s ev))"
proof -
  obtain f state h where s: "s = ((f, state), h)" by (metis prod.collapse)
  show ?thesis
  proof (cases ev)
    case (CourseChange c)
    then show ?thesis using s by (simp add: form_fresh_def handleCourseChange_def)
  next
    case (TeacherChange t)
    then show ?thesis using s by (simp add: form_fresh_def handleTeacherChange_def)
  next
    case (SlotChange x)
    then show ?thesis using s assms by (auto simp: form_fresh_def setSelectedSlot_def)
  next
    case (Submit_form srv)
    then show ?thesis using s assms
      by (auto simp: form_fresh_def handleSubmit_form_def Let_def split: prod.splits if_splits)
  qed
qed

lemma form_run_fresh:
  "form_fresh (fst (fst s), snd s) \<Longrightarrow>
   form_fresh (fst (fst (foldl form_step s evs)), snd (foldl form_step s evs))"
  by (induction evs arbitrary: s) (simp_all add: form_step_fresh)

lemma page_step_fresh:
  assumes "page_fresh s"
  shows "page_fresh (page_step s ev)"
proof -
  obtain p h where s: "s = (p, h)" by (cases s)
  show ?thesis
  proof (cases ev)
    case (SelectCourse c)
    then show ?thesis using s by (simp add: page_fresh_def handleSelectCourse_def)
  next
    case (SelectTeacher t)
    then show ?thesis using s by (simp add: page_fresh_def handleSelectTeacher_def)
  next
    case (SelectSlot x)
    then show ?thesis using s assms by (auto simp: page_fresh_def handleSelectSlot_def)
  next
    case (Submit_page srv)
    then show ?thesis using s assms
      by (auto simp: page_fresh_def handleSubmit_page_def createSelection_def
          split: option.splits sum.splits)
  qed
qed

lemma page_run_fresh: "page_fresh s \<Longrightarrow> page_fresh (foldl page_step s evs)"
  by (induction evs arbitrary: s) (simp_all add: page_step_fresh)

text \<open>
  C1. Selecting a course sets the course and resets the teacher and the slot to empty,
  and selecting a teacher sets the teacher and resets the slot, in the Redux-backed form
  and on the page alike; the handlers compute this from the current selections alone, so
  no response is awaited. Hence along every sequence of selection and submission events a
  teacher that is set was chosen under the course now selected, and a slot that is set
  was chosen under the course and the teacher now selected.
\<close>

theorem selection_chain:
  "fst (handleCourseChange courseId f) =
      \<lparr>selectedCourse = courseId, selectedTeacher = [], selectedSlot = []\<rparr>
   \<and> fst (handleTeacherChange teacherId f) =
      \<lparr>selectedCourse = selectedCourse f, selectedTeacher = teacherId, selectedSlot = []\<rparr>
   \<and> handleSelectCourse course p =
      \<lparr>selectedCourse = Some course, selectedTeacher = None, selectedSlot = None,
       mySelections = mySelections p\<rparr>
   \<and> handleSelectTeacher teacher p =
      \<lparr>selectedCourse = selectedCourse p, selectedTeacher = Some teacher, selectedSlot = None,
       mySelections = mySelections p\<rparr>
   \<and> (form_fresh (fst (fst fs), snd fs) \<longrightarrow>
        form_fresh (fst (fst (foldl form_step fs fevs)), snd (foldl form_step fs fevs)))
   \<and> (page_fresh ps \<longrightarrow> page_fresh (foldl page_step ps pevs))"
  using form_run_fresh [of fs fevs] page_run_fresh [of ps pevs]
  by (simp add: handleCourseChange_def handleTeacherChange_def handleSelectCourse_def
      handleSelectTeacher_def)

theorem selection_chain_witness:
  "form_fresh (\<lparr>selectedCourse = [], selectedTeacher = [], selectedSlot = []\<rparr>,
               \<lparr>teacher_under = [], slot_under = ([], [])\<rparr>)
   \<and> foldl form_step
        ((\<lparr>selectedCourse = [], selectedTeacher = [], selectedSlot = []\<rparr>, initialState),
         \<lparr>teacher_under = [], slot_under = ([], [])\<rparr>)
        [CourseChange ''11'', TeacherChange ''7'', SlotChange ''4'', CourseChange ''12'']
      = ((\<lparr>selectedCourse = ''12'', selectedTeacher = [], selectedSlot = []\<rparr>, initialState),
         \<lparr>teacher_under = ''11'', slot_under = (''11'', ''7'')\<rparr>)
   \<and> page_fresh (\<lparr>selectedCourse = None, selectedTeacher = None, selectedSlot = None,
                  mySelections = []\<rparr>,
                 \<lparr>teacher_under = None, slot_under = (None, None)\<rparr>)
   \<and> fst (foldl page_step
        (\<lparr>selectedCourse = None, selectedTeacher = None, selectedSlot = None, mySelections = []\<rparr>,
         \<lparr>teacher_under = None, slot_under = (None, None)\<rparr>)
        [SelectCourse example_course, SelectTeacher example_teacher, SelectSlot example_slot,
         SelectTeacher (example_teacher\<lparr>pt_id := 8\<rparr>)])
      = \<lparr>selectedCourse = Some example_course,
         selectedTeacher = Some (example_teacher\<lparr>pt_id := 8\<rparr>), selectedSlot = None,
         mySelections = []\<rparr>
   \<and> page_fresh (foldl page_step
        (\<lparr>selectedCourse = None, selectedTeacher = None, selectedSlot = None, mySelections = []\<rparr>,
         \<lparr>teacher_under = None, slot_under = (None, None)\<rparr>)
        [SelectCourse example_course, SelectTeacher example_teacher, SelectSlot example_slot,
         SelectTeacher (example_teacher\<lparr>pt_id := 8\<rparr>)])"
proof -
  have a: "form_fresh (\<lparr>selectedCourse = [], selectedTeacher = [], selectedSlot = []\<rparr>,
               \<lparr>teacher_under = [], slot_under = ([], [])\<rparr>)"
    by (simp add: form_fresh_def)
  have b: "page_fresh (\<lparr>selectedCourse = None, selectedTeacher = None, selectedSlot = None,
                  mySelections = []\<rparr>,
                 \<lparr>teacher_under = None, slot_under = (None, None)\<rparr>)"
    by (simp add: page_fresh_def)
  show ?thesis
    using a b
      selection_chain [of "''11''" "\<lparr>selectedCourse = [], selectedTeacher = [], selectedSlot = []\<rparr>"
        "''7''" example_course
        "\<lparr>selectedCourse = None, selectedTeacher = None, selectedSlot = None, mySelections = []\<rparr>"
        example_teacher
        "((\<lparr>selectedCourse = [], selectedTeacher = [], selectedSlot = []\<rparr>, initialState),
         \<lparr>teacher_under = [], slot_under = ([], [])\<rparr>)"
        "[CourseChange ''11'', TeacherChange ''7'', SlotChange ''4'', CourseChange ''12'']"
        "(\<lparr>selectedCourse = None, selectedTeacher = None, selectedSlot = None, mySelections = []\<rparr>,
         \<lparr>teacher_under = None, slot_under = (None, None)\<rparr>)"
        "[SelectCourse example_course, SelectTeacher example_teacher, SelectSlot example_slot,
         SelectTeacher (example_teacher\<lparr>pt_id := 8\<rparr>)]"]
    by (simp add: handleCourseChange_def handleTeacherChange_def setSelectedSlot_def
        handleSelectCourse_def handleSelectTeacher_def handleSelectSlot_def)
qed

section \<open>Properties of the fallback chains\<close>













lemma spec_fallback_accepts_last:
  "spec_fallback get qs lastError = (Inr r, tried) \<Longrightarrow> tried \<noteq> [] \<and> get (last tried) = Inr r"
proof (induction qs arbitrary: lastError tried)
  case Nil
  then show ?case by simp
next
  case (Cons q qs)
  show ?case
  proof (cases "get q")
    case (Inr r')
    then show ?thesis using Cons.prems by auto
  next
    case (Inl err)
    then obtain tried' where t: "spec_fallback get qs (Some err) = (Inr r, tried')" "tried = q # tried'"
      using Cons.prems by (auto split: prod.splits)
    then have "tried' \<noteq> [] \<and> get (last tried') = Inr r" using Cons.IH by blast
    then show ?thesis using t by simp
  qed
qed

lemma slots_loop_is_spec:
  "getAvailableSlots_loop get eps lastError =
     (case spec_fallback get (map (\<lambda>e. (e, [])) eps) lastError of
        (Inr r, tried) \<Rightarrow> (Inr (normalized_slots (fst (last tried)) r), tried)
      | (Inl e, tried) \<Rightarrow> (Inl e, tried))"
proof (induction eps arbitrary: lastError)
  case Nil
  then show ?case by simp
next
  case (Cons e eps)
  show ?case
  proof (cases "get (e, [])")
    case (Inr r)
    then show ?thesis by (simp add: normalized_slots_def)
  next
    case (Inl err)
    obtain res tried where st: "spec_fallback get (map (\<lambda>e. (e, [])) eps) (Some err) = (res, tried)"
      by (cases "spec_fallback get (map (\<lambda>e. (e, [])) eps) (Some err)")
    show ?thesis
    proof (cases res)
      case (Inl x)
      then show ?thesis using \<open>get (e, []) = Inl err\<close> st Cons [of "Some err"] by simp
    next
      case (Inr r)
      then have "tried \<noteq> []" using st spec_fallback_accepts_last by blast
      then show ?thesis using \<open>get (e, []) = Inl err\<close> st Inr Cons [of "Some err"] by simp
    qed
  qed
qed




section \<open>Properties of the session context\<close>









end
